theory Spec2Isabelle
  imports Complex_Main "HOL-Library.Sublist"
begin

section \<open>The hazard map viewer of \<^verbatim>\<open>static/js/map.js\<close>\<close>

text \<open>
  The script drives a Leaflet map in a browser page. Its module-level variables
  (\<^verbatim>\<open>map\<close>, the three layer groups, \<^verbatim>\<open>currentMarker\<close>) and the parts of the
  page it writes to are collected in one record, and every handler is a function from
  the page before to the page after. What the script takes from outside is made a
  parameter: the responses of the backend, and the number formatting of the JavaScript
  engine (which depends on the double representation and on the locale).

  Numbers are JavaScript doubles that come out of \<^verbatim>\<open>JSON.parse\<close> or out of a Leaflet
  click event, so they are finite; they are modelled as reals, of which only equality
  and the test against zero are used.

  An \<^verbatim>\<open>async\<close> function is modelled from its call to its end, each \<^verbatim>\<open>await\<close>
  taking its outcome from the backend. The elements the script looks up by id are taken
  to be in the document.
\<close>

subsection \<open>Values and exceptions\<close>

datatype exn =
    TypeError                 \<comment> \<open>a property read on \<^verbatim>\<open>undefined\<close> or \<^verbatim>\<open>null\<close>\<close>
  | FetchRejected             \<comment> \<open>the promise of \<^verbatim>\<open>fetch\<close> rejects (network failure)\<close>
  | SyntaxError               \<comment> \<open>the promise of \<^verbatim>\<open>response.json()\<close> rejects\<close>

text \<open>
  The engine's number formatting: \<^verbatim>\<open>String(x)\<close> as a template literal applies it,
  \<^verbatim>\<open>x.toLocaleString()\<close> and \<^verbatim>\<open>x.toFixed(6)\<close>.
\<close>

record js_env =
  Number_toString :: "real \<Rightarrow> string"
  Number_toLocaleString :: "real \<Rightarrow> string"
  Number_toFixed6 :: "real \<Rightarrow> string"

text \<open>
  A property that may be missing is an \<open>option\<close>: \<open>None\<close> is \<^verbatim>\<open>undefined\<close>.
  A template literal turns \<^verbatim>\<open>undefined\<close> into the text \<^verbatim>\<open>undefined\<close>.
\<close>

definition template_string :: "string option \<Rightarrow> string" where
  "template_string v = (case v of None \<Rightarrow> ''undefined'' | Some s \<Rightarrow> s)"

definition template_number :: "js_env \<Rightarrow> real option \<Rightarrow> string" where
  "template_number env v = (case v of None \<Rightarrow> ''undefined'' | Some x \<Rightarrow> Number_toString env x)"


subsection \<open>The colour table\<close>

text \<open>
  \<^verbatim>\<open>COLORS\<close> is an object literal. Reading \<^verbatim>\<open>COLORS[k]\<close> finds an own property
  first and then follows the prototype chain to \<^verbatim>\<open>Object.prototype\<close>, whose
  properties are functions (and, for \<^verbatim>\<open>__proto__\<close>, the prototype object itself): all
  of them truthy values that are not strings.
\<close>

definition COLORS :: "(string \<times> string) list" where
  "COLORS = [(''LS'', ''#2ecc71''), (''MS'', ''#f39c12''), (''HS'', ''#e67e22''),
             (''VHS'', ''#e74c3c'')]"

definition Object_prototype :: "string list" where
  "Object_prototype =
     [''constructor'', ''hasOwnProperty'', ''isPrototypeOf'', ''propertyIsEnumerable'',
      ''toLocaleString'', ''toString'', ''valueOf'', ''__proto__'',
      ''__defineGetter__'', ''__defineSetter__'', ''__lookupGetter__'', ''__lookupSetter__'']"

datatype color_value =
    ColorString string        \<comment> \<open>a string of the table, or the fallback\<close>
  | Inherited string          \<comment> \<open>the member of \<^verbatim>\<open>Object.prototype\<close> of that name\<close>

text \<open>
  \<^verbatim>\<open>COLORS[susceptibility]\<close>: the key \<^verbatim>\<open>undefined\<close> is converted to the property
  name \<^verbatim>\<open>undefined\<close>. \<open>None\<close> is the result \<^verbatim>\<open>undefined\<close>.
\<close>

definition COLORS_get :: "string option \<Rightarrow> color_value option" where
  "COLORS_get susceptibility =
     (let key = template_string susceptibility in
      case map_of COLORS key of
        Some c \<Rightarrow> Some (ColorString c)
      | None \<Rightarrow> if key \<in> set Object_prototype then Some (Inherited key) else None)"

subsection \<open>Features and rendered shapes\<close>

text \<open>
  A feature as the backend documents it: a geometry and a \<^verbatim>\<open>properties\<close> object
  with \<^verbatim>\<open>susceptibility\<close>, \<^verbatim>\<open>original_code\<close> (strings) and \<^verbatim>\<open>shape_area\<close> (a
  number), each of which may be missing. Leaflet is taken to build one path per feature
  of the collection, in order; the geometry is carried along unread.
\<close>

record properties =
  susceptibility :: "string option"
  original_code :: "string option"
  shape_area :: "real option"

record feature =
  geometry :: "(real \<times> real) list"
  properties :: properties

record path_style =
  fillColor :: color_value
  weight :: nat
  opacity :: real
  color :: string
  fillOpacity :: real

record shape =
  shape_feature :: feature
  shape_style :: path_style
  popup :: "string option"

text \<open>The \<^verbatim>\<open>style\<close> callback of \<^verbatim>\<open>addGeoJSONLayer\<close>.\<close>

definition style :: "feature \<Rightarrow> path_style" where
  "style f =
     (let susc = susceptibility (properties f) in
      \<lparr> fillColor = (case COLORS_get susc of Some v \<Rightarrow> v | None \<Rightarrow> ColorString ''#95a5a6''),
        weight = 1,
        opacity = 0.8,
        color = ''white'',
        fillOpacity = 0.6 \<rparr>)"

text \<open>
  \<^verbatim>\<open>hazardType.charAt(0).toUpperCase() + hazardType.slice(1)\<close>. The callers pass the
  literals \<^verbatim>\<open>flood\<close>, \<^verbatim>\<open>landslide\<close> and \<^verbatim>\<open>liquefaction\<close>; upper-casing is
  modelled on ASCII letters.
\<close>

definition toUpperCase_char :: "char \<Rightarrow> char" where
  "toUpperCase_char c =
     (case map_of (zip ''abcdefghijklmnopqrstuvwxyz'' ''ABCDEFGHIJKLMNOPQRSTUVWXYZ'') c of
        Some u \<Rightarrow> u | None \<Rightarrow> c)"

definition capitalize :: "string \<Rightarrow> string" where
  "capitalize hazardType = map toUpperCase_char (take 1 hazardType) @ drop 1 hazardType"

text \<open>
  The fourth interpolation of the popup text: the area line, or the empty string when
  \<^verbatim>\<open>shape_area\<close> is falsy.
\<close>

definition area_line :: "js_env \<Rightarrow> feature \<Rightarrow> string" where
  "area_line env f =
     (case shape_area (properties f) of
        None \<Rightarrow> []
      | Some a \<Rightarrow> if a \<noteq> 0
                  then ''<br>Area: '' @ Number_toLocaleString env a @ '' sq units''
                  else [])"

definition indent16 :: string where
  "indent16 = replicate 16 CHR '' ''"

definition popupContent :: "js_env \<Rightarrow> string \<Rightarrow> feature \<Rightarrow> string" where
  "popupContent env hazardType f =
     [CHR 0x0A] @ indent16 @ ''<strong>'' @ capitalize hazardType @ '' Susceptibility</strong><br>''
     @ [CHR 0x0A] @ indent16 @ ''Level: '' @ template_string (susceptibility (properties f)) @ ''<br>''
     @ [CHR 0x0A] @ indent16 @ ''Original Code: '' @ template_string (original_code (properties f))
     @ [CHR 0x0A] @ indent16 @ area_line env f
     @ [CHR 0x0A] @ replicate 12 CHR '' ''"

subsection \<open>The page\<close>

datatype layer_group = FloodLayer | LandslideLayer | LiquefactionLayer

datatype layer =
    TileLayer
  | LayerGroup layer_group
  | Marker nat real real      \<comment> \<open>the object's identity, latitude, longitude\<close>

datatype request =
    GET string
  | POST string string string  \<comment> \<open>URL, then the form fields \<^verbatim>\<open>shapefile\<close> and \<^verbatim>\<open>dataset_type\<close>\<close>

datatype timer_callback = LocationReload

record page =
  map_layers :: "layer list"               \<comment> \<open>the layers added to \<^verbatim>\<open>map\<close>, in order\<close>
  floodLayer :: "shape list"
  landslideLayer :: "shape list"
  liquefactionLayer :: "shape list"
  currentMarker :: "layer option"
  markers_created :: nat                   \<comment> \<open>gives each new marker object its identity\<close>
  sidebar_hidden :: bool
  location_info :: string                  \<comment> \<open>\<^verbatim>\<open>innerHTML\<close> of \<^verbatim>\<open>#location-info\<close>\<close>
  hazard_details :: string                 \<comment> \<open>\<^verbatim>\<open>innerHTML\<close> of \<^verbatim>\<open>#hazard-details\<close>\<close>
  upload_form_hidden :: bool
  upload_progress_hidden :: bool
  upload_result_hidden :: bool
  result_message :: string                 \<comment> \<open>\<^verbatim>\<open>innerHTML\<close> of \<^verbatim>\<open>#result-message\<close>\<close>
  result_message_style :: "string \<rightharpoonup> string"
  alerts :: "string list"                  \<comment> \<open>the calls of \<^verbatim>\<open>alert\<close>\<close>
  console_errors :: "(string \<times> exn) list"   \<comment> \<open>the calls of \<^verbatim>\<open>console.error\<close>\<close>
  requests :: "request list"               \<comment> \<open>the calls of \<^verbatim>\<open>fetch\<close>\<close>
  timers :: "(nat \<times> timer_callback) list"   \<comment> \<open>the calls of \<^verbatim>\<open>setTimeout\<close>: delay, callback\<close>

fun group_layers :: "layer_group \<Rightarrow> page \<Rightarrow> shape list" where
  "group_layers FloodLayer s = floodLayer s"
| "group_layers LandslideLayer s = landslideLayer s"
| "group_layers LiquefactionLayer s = liquefactionLayer s"

text \<open>\<^verbatim>\<open>layer.addTo(layerGroup)\<close>: the group gets one more member.\<close>

fun addTo_group :: "shape \<Rightarrow> layer_group \<Rightarrow> page \<Rightarrow> page" where
  "addTo_group sh FloodLayer s = s\<lparr>floodLayer := floodLayer s @ [sh]\<rparr>"
| "addTo_group sh LandslideLayer s = s\<lparr>landslideLayer := landslideLayer s @ [sh]\<rparr>"
| "addTo_group sh LiquefactionLayer s = s\<lparr>liquefactionLayer := liquefactionLayer s @ [sh]\<rparr>"

text \<open>
  \<^verbatim>\<open>map.addLayer\<close> and \<^verbatim>\<open>map.removeLayer\<close> of Leaflet: a layer that is already on
  the map is not added again, removing a layer that is not on the map changes nothing,
  and either call raises when it is handed \<^verbatim>\<open>undefined\<close>.
\<close>

definition map_addLayer :: "layer option \<Rightarrow> page \<Rightarrow> exn + page" where
  "map_addLayer l s =
     (case l of
        None \<Rightarrow> Inl TypeError
      | Some x \<Rightarrow> if x \<in> set (map_layers s) then Inr s
                  else Inr (s\<lparr>map_layers := map_layers s @ [x]\<rparr>))"

definition map_removeLayer :: "layer option \<Rightarrow> page \<Rightarrow> exn + page" where
  "map_removeLayer l s =
     (case l of
        None \<Rightarrow> Inl TypeError
      | Some x \<Rightarrow> Inr (s\<lparr>map_layers := removeAll x (map_layers s)\<rparr>))"

text \<open>What the map shows: the members of a group are drawn while the group is on the map.\<close>

definition on_map :: "layer_group \<Rightarrow> page \<Rightarrow> bool" where
  "on_map g s = (LayerGroup g \<in> set (map_layers s))"

definition visible_shapes :: "layer_group \<Rightarrow> page \<Rightarrow> shape list" where
  "visible_shapes g s = (if on_map g s then group_layers g s else [])"

fun is_marker :: "layer \<Rightarrow> bool" where
  "is_marker (Marker i lat lng) = True"
| "is_marker l = False"

definition markers_on_map :: "page \<Rightarrow> layer list" where
  "markers_on_map s = filter is_marker (map_layers s)"

subsection \<open>\<^verbatim>\<open>addGeoJSONLayer\<close>\<close>

text \<open>
  \<^verbatim>\<open>onEachFeature\<close>, on the path Leaflet has built and styled for the feature:
  bind the popup, add the path to the group.
\<close>

definition rendered :: "js_env \<Rightarrow> string \<Rightarrow> feature \<Rightarrow> shape" where
  "rendered env hazardType f =
     \<lparr> shape_feature = f, shape_style = style f,
       popup = Some (popupContent env hazardType f) \<rparr>"

definition onEachFeature :: "js_env \<Rightarrow> layer_group \<Rightarrow> string \<Rightarrow> feature \<Rightarrow> page \<Rightarrow> page" where
  "onEachFeature env layerGroup hazardType f s =
     addTo_group (rendered env hazardType f) layerGroup s"

fun addGeoJSONLayer :: "js_env \<Rightarrow> feature list \<Rightarrow> layer_group \<Rightarrow> string \<Rightarrow> page \<Rightarrow> page" where
  "addGeoJSONLayer env [] layerGroup hazardType s = s"
| "addGeoJSONLayer env (f # fs) layerGroup hazardType s =
     addGeoJSONLayer env fs layerGroup hazardType (onEachFeature env layerGroup hazardType f s)"

subsection \<open>\<^verbatim>\<open>loadHazardData\<close>\<close>

text \<open>
  What a \<^verbatim>\<open>fetch\<close> followed by \<^verbatim>\<open>response.json()\<close> can give: the request is
  rejected, or a response arrives with its \<^verbatim>\<open>ok\<close> flag and a body that parses
  (\<open>Some\<close>) or does not (\<open>None\<close>). The backend is a function from the URL to that
  outcome.
\<close>

datatype 'a fetch_outcome =
    Rejected
  | Response bool "'a option"

type_synonym hazard_backend = "string \<Rightarrow> feature list fetch_outcome"

text \<open>
  One of the three blocks of the \<^verbatim>\<open>try\<close> body, which differ in the URL, the group
  and the label only. The result is the exception the block raises, if any, and the
  page as the block leaves it.
\<close>

definition load_dataset ::
  "js_env \<Rightarrow> hazard_backend \<Rightarrow> string \<Rightarrow> layer_group \<Rightarrow> string \<Rightarrow> page \<Rightarrow> exn option \<times> page" where
  "load_dataset env backend url layerGroup hazardType s =
     (let s1 = s\<lparr>requests := requests s @ [GET url]\<rparr> in
      case backend url of
        Rejected \<Rightarrow> (Some FetchRejected, s1)
      | Response ok body \<Rightarrow>
          if ok then
            (case body of
               None \<Rightarrow> (Some SyntaxError, s1)
             | Some data \<Rightarrow> (None, addGeoJSONLayer env data layerGroup hazardType s1))
          else (None, s1))"

definition loadHazardData_try :: "js_env \<Rightarrow> hazard_backend \<Rightarrow> page \<Rightarrow> exn option \<times> page" where
  "loadHazardData_try env backend s =
     (case load_dataset env backend ''/api/flood-data/'' FloodLayer ''flood'' s of
        (Some e, s1) \<Rightarrow> (Some e, s1)
      | (None, s1) \<Rightarrow>
     (case load_dataset env backend ''/api/landslide-data/'' LandslideLayer ''landslide'' s1 of
        (Some e, s2) \<Rightarrow> (Some e, s2)
      | (None, s2) \<Rightarrow>
      load_dataset env backend ''/api/liquefaction-data/'' LiquefactionLayer ''liquefaction'' s2))"

text \<open>
  The whole function: the \<^verbatim>\<open>catch\<close> clause logs what the body raised. The first
  component of the result is the exception that leaves the function.
\<close>

definition loadHazardData :: "js_env \<Rightarrow> hazard_backend \<Rightarrow> page \<Rightarrow> exn option \<times> page" where
  "loadHazardData env backend s =
     (case loadHazardData_try env backend s of
        (None, s') \<Rightarrow> (None, s')
      | (Some e, s') \<Rightarrow>
          (None, s'\<lparr>console_errors := console_errors s' @ [(''Error loading hazard data:'', e)]\<rparr>))"



text \<open>
  \<^verbatim>\<open>initMap\<close>: a new map with the tile layer and the three empty groups on it, then
  the hazard data is loaded. (The click handler it registers is \<open>onMapClick\<close> below.)
\<close>

definition initMap :: "js_env \<Rightarrow> hazard_backend \<Rightarrow> page \<Rightarrow> exn option \<times> page" where
  "initMap env backend s =
     loadHazardData env backend
       (s\<lparr>map_layers := [TileLayer, LayerGroup FloodLayer, LayerGroup LandslideLayer,
                          LayerGroup LiquefactionLayer],
          floodLayer := [], landslideLayer := [], liquefactionLayer := []\<rparr>)"

text \<open>
  The page once the script has run its \<^verbatim>\<open>DOMContentLoaded\<close> handler on the
  document \<open>doc\<close>: the module's \<^verbatim>\<open>let currentMarker\<close> leaves the variable
  \<^verbatim>\<open>undefined\<close>, and the \<^verbatim>\<open>setup\<close> functions only register handlers.
\<close>

definition DOMContentLoaded :: "js_env \<Rightarrow> hazard_backend \<Rightarrow> page \<Rightarrow> page" where
  "DOMContentLoaded env backend doc =
     snd (initMap env backend (doc\<lparr>currentMarker := None, markers_created := 0\<rparr>))"

subsection \<open>\<^verbatim>\<open>onMapClick\<close> and the sidebar\<close>

definition dq :: string where
  "dq = [CHR 0x22]"

definition getHazardInfoForLocation :: "real \<Rightarrow> real \<Rightarrow> page \<Rightarrow> page" where
  "getHazardInfoForLocation lat lng s =
     (let s1 = s\<lparr>hazard_details := ''<p>Analyzing hazard levels...</p>''\<rparr>;
          hazardInfo =
            [''<div class='' @ dq @ ''hazard-item'' @ dq @ ''>'',
             ''<strong>Flood Susceptibility:</strong> <span class='' @ dq @ ''analyzing'' @ dq
               @ ''>Analyzing...</span><br>'',
             ''<strong>Landslide Susceptibility:</strong> <span class='' @ dq @ ''analyzing'' @ dq
               @ ''>Analyzing...</span><br>'',
             ''<strong>Liquefaction Susceptibility:</strong> <span class='' @ dq @ ''analyzing'' @ dq
               @ ''>Analyzing...</span>'',
             ''</div>'',
             ''<div class='' @ dq @ ''note'' @ dq @ ''>'',
             ''<small><em>Note: Click on colored areas for detailed information</em></small>'',
             ''</div>'']
      in s1\<lparr>hazard_details := concat hazardInfo\<rparr>)"

definition showLocationInfo :: "js_env \<Rightarrow> real \<Rightarrow> real \<Rightarrow> page \<Rightarrow> page" where
  "showLocationInfo env lat lng s =
     getHazardInfoForLocation lat lng
       (s\<lparr>sidebar_hidden := False,
          location_info :=
            [CHR 0x0A] @ replicate 8 CHR '' '' @ ''<strong>Selected Location</strong><br>''
            @ [CHR 0x0A] @ replicate 8 CHR '' '' @ ''Latitude: '' @ Number_toFixed6 env lat @ ''<br>''
            @ [CHR 0x0A] @ replicate 8 CHR '' '' @ ''Longitude: '' @ Number_toFixed6 env lng
            @ [CHR 0x0A] @ replicate 4 CHR '' ''\<rparr>)"

definition onMapClick :: "js_env \<Rightarrow> real \<Rightarrow> real \<Rightarrow> page \<Rightarrow> exn + page" where
  "onMapClick env lat lng s =
     (case (if currentMarker s \<noteq> None then map_removeLayer (currentMarker s) s else Inr s) of
        Inl e \<Rightarrow> Inl e
      | Inr s1 \<Rightarrow>
          (let marker = Marker (markers_created s1) lat lng in
           case map_addLayer (Some marker) s1 of
             Inl e \<Rightarrow> Inl e
           | Inr s2 \<Rightarrow>
               Inr (showLocationInfo env lat lng
                      (s2\<lparr>currentMarker := Some marker,
                          markers_created := Suc (markers_created s1)\<rparr>))))"

text \<open>A series of clicks, each handled to its end before the next; an exception ends it.\<close>

fun clicks :: "js_env \<Rightarrow> (real \<times> real) list \<Rightarrow> page \<Rightarrow> exn + page" where
  "clicks env [] s = Inr s"
| "clicks env ((lat, lng) # cs) s =
     (case onMapClick env lat lng s of Inl e \<Rightarrow> Inl e | Inr s' \<Rightarrow> clicks env cs s')"

text \<open>The marker the variable holds is the only marker on the map.\<close>

definition marker_inv :: "page \<Rightarrow> bool" where
  "marker_inv s = (markers_on_map s = (case currentMarker s of None \<Rightarrow> [] | Some m \<Rightarrow> [m]))"

subsection \<open>The layer toggles\<close>

text \<open>
  The three \<^verbatim>\<open>change\<close> listeners of \<^verbatim>\<open>setupLayerToggles\<close> are the same function of
  the group they name and of \<^verbatim>\<open>e.target.checked\<close>.
\<close>

definition toggle_change :: "layer_group \<Rightarrow> bool \<Rightarrow> page \<Rightarrow> exn + page" where
  "toggle_change g checked s =
     (if checked then map_addLayer (Some (LayerGroup g)) s
      else map_removeLayer (Some (LayerGroup g)) s)"

subsection \<open>The upload form\<close>

text \<open>
  The parsed body of the upload response is a JSON object, as the backend documents it,
  in which \<^verbatim>\<open>records_created\<close> (a number) and \<^verbatim>\<open>error\<close> (a string) may each
  be missing.
\<close>

record upload_json =
  records_created :: "real option"
  error :: "string option"

definition showUploadProgress :: "page \<Rightarrow> page" where
  "showUploadProgress s = s\<lparr>upload_form_hidden := True, upload_progress_hidden := False\<rparr>"

text \<open>The template literal that \<^verbatim>\<open>showUploadResult\<close> writes into \<^verbatim>\<open>#result-message\<close>.\<close>

definition result_html :: "bool \<Rightarrow> string \<Rightarrow> string" where
  "result_html success message =
     [CHR 0x0A] @ replicate 8 CHR '' '' @ ''<div class='' @ dq
     @ (if success then ''success'' else ''error'') @ dq @ ''>''
     @ [CHR 0x0A] @ replicate 12 CHR '' '' @ message
     @ [CHR 0x0A] @ replicate 8 CHR '' '' @ ''</div>''
     @ [CHR 0x0A] @ replicate 4 CHR '' ''"

definition showUploadResult :: "bool \<Rightarrow> string \<Rightarrow> page \<Rightarrow> page" where
  "showUploadResult success message s =
     (let s1 = s\<lparr>upload_progress_hidden := True, upload_result_hidden := False,
                  result_message := result_html success message\<rparr>;
          st = result_message_style s1;
          st1 = (if success
                 then st(''color'' \<mapsto> ''#27ae60'', ''backgroundColor'' \<mapsto> ''#d5f4e6'')
                 else st(''color'' \<mapsto> ''#e74c3c'', ''backgroundColor'' \<mapsto> ''#fadbd8''))
      in s1\<lparr>result_message_style :=
               st1(''padding'' \<mapsto> ''1rem'', ''borderRadius'' \<mapsto> ''5px'', ''marginTop'' \<mapsto> ''1rem'')\<rparr>)"

text \<open>The \<^verbatim>\<open>catch\<close> clause of \<^verbatim>\<open>handleFileUpload\<close>.\<close>

definition handleFileUpload_catch :: "exn \<Rightarrow> page \<Rightarrow> page" where
  "handleFileUpload_catch e s =
     (let s1 = showUploadResult False ''Network error occurred'' s
      in s1\<lparr>console_errors := console_errors s1 @ [(''Upload error:'', e)]\<rparr>)"

text \<open>
  \<^verbatim>\<open>handleFileUpload\<close>, given \<^verbatim>\<open>fileInput.files[0]\<close> (the file's name, or
  \<^verbatim>\<open>undefined\<close>), the value of the dataset-type control, and what the backend does
  with the request if one is sent.
\<close>

definition handleFileUpload ::
  "js_env \<Rightarrow> string option \<Rightarrow> string \<Rightarrow> upload_json fetch_outcome \<Rightarrow> page \<Rightarrow> page" where
  "handleFileUpload env file datasetType outcome s =
     (case file of
        None \<Rightarrow> s\<lparr>alerts := alerts s @ [''Please select a shapefile to upload'']\<rparr>
      | Some shapefile \<Rightarrow>
          if datasetType = [] then s\<lparr>alerts := alerts s @ [''Please select a dataset type'']\<rparr>
          else
            (let s1 = showUploadProgress s;
                 s2 = s1\<lparr>requests := requests s1
                                        @ [POST ''/api/upload-shapefile/'' shapefile datasetType]\<rparr>
             in case outcome of
                  Rejected \<Rightarrow> handleFileUpload_catch FetchRejected s2
                | Response ok body \<Rightarrow>
                    (case body of
                       None \<Rightarrow> handleFileUpload_catch SyntaxError s2
                     | Some result \<Rightarrow>
                         if ok then
                           (let s3 = showUploadResult True
                                       (''Successfully processed ''
                                        @ template_number env (records_created result)
                                        @ '' records'') s2
                            in s3\<lparr>timers := timers s3 @ [(2000, LocationReload)]\<rparr>)
                         else
                           showUploadResult False
                             (case error result of
                                None \<Rightarrow> ''Upload failed''
                              | Some m \<Rightarrow> if m \<noteq> [] then m else ''Upload failed'') s2)))"


subsection \<open>Sample data\<close>

text \<open>
  An engine for the examples: it prints a number by the decimal digits of its whole
  part, which is what a browser shows for the whole numbers below 1000 used here (with
  six zero decimals for \<^verbatim>\<open>toFixed(6)\<close>).
\<close>

fun decimal :: "nat \<Rightarrow> string" where
  "decimal n =
     (if n < 10 then [''0123456789'' ! n]
      else decimal (n div 10) @ [''0123456789'' ! (n mod 10)])"

definition whole_number :: "real \<Rightarrow> string" where
  "whole_number x = decimal (nat \<lfloor>x\<rfloor>)"

definition whole_number_fixed6 :: "real \<Rightarrow> string" where
  "whole_number_fixed6 x = whole_number x @ ''.000000''"

definition sample_env :: js_env where
  "sample_env =
     \<lparr> Number_toString = whole_number, Number_toLocaleString = whole_number,
       Number_toFixed6 = whole_number_fixed6 \<rparr>"

text \<open>A document on which the script has not run yet.\<close>

definition sample_document :: page where
  "sample_document =
     \<lparr> map_layers = [], floodLayer = [], landslideLayer = [], liquefactionLayer = [],
       currentMarker = None, markers_created = 0,
       sidebar_hidden = True, location_info = [], hazard_details = [],
       upload_form_hidden = False, upload_progress_hidden = True, upload_result_hidden = True,
       result_message = [], result_message_style = Map.empty,
       alerts = [], console_errors = [], requests = [], timers = [] \<rparr>"

definition feature_HS :: feature where
  "feature_HS =
     \<lparr> geometry = [(9, 123), (10, 123), (10, 124)],
       properties = \<lparr> susceptibility = Some ''HS'', original_code = Some ''HF'',
                      shape_area = Some 250 \<rparr> \<rparr>"


definition feature_constructor :: feature where
  "feature_constructor =
     \<lparr> geometry = [(9, 123), (10, 123), (10, 124)],
       properties = \<lparr> susceptibility = Some ''constructor'', original_code = Some ''X'',
                      shape_area = None \<rparr> \<rparr>"

text \<open>
  Backends: all three datasets served; flood answered with status 500; flood
  unreachable; landslide unreachable.
\<close>

definition backend_up :: hazard_backend where
  "backend_up url = Response True (Some [feature_HS])"

definition backend_flood_500 :: hazard_backend where
  "backend_flood_500 url =
     (if url = ''/api/flood-data/'' then Response False None
      else Response True (Some [feature_HS]))"



section \<open>Properties\<close>

subsection \<open>Colour resolution\<close>

lemma style_table:
  "map_of COLORS c = Some v \<Longrightarrow> susceptibility (properties f) = Some c
   \<Longrightarrow> fillColor (style f) = ColorString v"
  by (simp add: style_def COLORS_get_def template_string_def)

lemma style_missing:
  "susceptibility (properties f) = None \<Longrightarrow> fillColor (style f) = ColorString ''#95a5a6''"
  by (simp add: style_def COLORS_get_def template_string_def COLORS_def Object_prototype_def)

lemma style_fallback:
  "template_string (susceptibility (properties f)) \<notin> fst ` set COLORS \<union> set Object_prototype
   \<Longrightarrow> fillColor (style f) = ColorString ''#95a5a6''"
  by (auto simp add: style_def COLORS_get_def Let_def split: option.splits dest!: map_of_SomeD
      intro: rev_image_eqI)

text \<open>
  Claim C3: the four codes LS, MS, HS and VHS resolve to their entry of the colour
  table, and every other code, or a missing one, resolves to the fallback colour.

  The table entries and the missing code are as claimed (\<open>style_table\<close>,
  \<open>style_missing\<close>), and so is every code that names no member of
  \<^verbatim>\<open>Object.prototype\<close> (\<open>style_fallback\<close>). The code \<^verbatim>\<open>constructor\<close> is none
  of the four, yet \<^verbatim>\<open>COLORS['constructor']\<close> is the inherited function, a truthy
  value, so \<^verbatim>\<open>||\<close> never reaches the fallback: the fill colour is not a colour.
\<close>

theorem style_constructor_not_fallback:
  "susceptibility (properties feature_constructor) = Some ''constructor'' \<and>
   map_of COLORS ''constructor'' = None \<and>
   fillColor (style feature_constructor) = Inherited ''constructor'' \<and>
   fillColor (style feature_constructor) \<noteq> ColorString ''#95a5a6''"
  by (simp add: style_def COLORS_get_def template_string_def COLORS_def Object_prototype_def
      feature_constructor_def)

subsection \<open>Rendering a feature collection\<close>



lemma addTo_group_frame:
  "map_layers (addTo_group sh g s) = map_layers s"
  "currentMarker (addTo_group sh g s) = currentMarker s"
  "markers_created (addTo_group sh g s) = markers_created s"
  "requests (addTo_group sh g s) = requests s"
  "console_errors (addTo_group sh g s) = console_errors s"
  by (cases g; simp)+

lemma addGeoJSONLayer_frame:
  "map_layers (addGeoJSONLayer env fs g ht s) = map_layers s"
  "currentMarker (addGeoJSONLayer env fs g ht s) = currentMarker s"
  "markers_created (addGeoJSONLayer env fs g ht s) = markers_created s"
  "requests (addGeoJSONLayer env fs g ht s) = requests s"
  "console_errors (addGeoJSONLayer env fs g ht s) = console_errors s"
  by (induction fs arbitrary: s; simp add: onEachFeature_def addTo_group_frame)+









subsection \<open>Loading the hazard data\<close>



lemma group_layers_log [simp]:
  "group_layers h (s\<lparr>requests := r\<rparr>) = group_layers h s"
  "group_layers h (s\<lparr>console_errors := c\<rparr>) = group_layers h s"
  by (cases h; simp)+


lemma load_dataset_frame:
  "map_layers (snd (load_dataset env backend url g ht s)) = map_layers s"
  "currentMarker (snd (load_dataset env backend url g ht s)) = currentMarker s"
  "markers_created (snd (load_dataset env backend url g ht s)) = markers_created s"
  by (simp_all add: load_dataset_def Let_def addGeoJSONLayer_frame split: fetch_outcome.splits option.splits)

lemma loadHazardData_try_cases:
  "loadHazardData_try env backend s =
     (let r1 = load_dataset env backend ''/api/flood-data/'' FloodLayer ''flood'' s in
      if fst r1 = None
      then (let r2 = load_dataset env backend ''/api/landslide-data/'' LandslideLayer
                       ''landslide'' (snd r1) in
            if fst r2 = None
            then load_dataset env backend ''/api/liquefaction-data/'' LiquefactionLayer
                   ''liquefaction'' (snd r2)
            else r2)
      else r1)"
  by (auto simp add: loadHazardData_try_def Let_def split: prod.splits option.splits)

lemma loadHazardData_snd:
  "group_layers h (snd (loadHazardData env backend s)) = group_layers h (snd (loadHazardData_try env backend s))"
  "requests (snd (loadHazardData env backend s)) = requests (snd (loadHazardData_try env backend s))"
  "map_layers (snd (loadHazardData env backend s)) = map_layers (snd (loadHazardData_try env backend s))"
  "currentMarker (snd (loadHazardData env backend s)) = currentMarker (snd (loadHazardData_try env backend s))"
  "markers_created (snd (loadHazardData env backend s)) = markers_created (snd (loadHazardData_try env backend s))"
  by (simp_all add: loadHazardData_def split: prod.splits option.splits)


lemma loadHazardData_try_frame:
  "map_layers (snd (loadHazardData_try env backend s)) = map_layers s"
  "currentMarker (snd (loadHazardData_try env backend s)) = currentMarker s"
  "markers_created (snd (loadHazardData_try env backend s)) = markers_created s"
  by (simp_all add: loadHazardData_try_cases Let_def load_dataset_frame)







subsection \<open>The selection marker\<close>

lemma showLocationInfo_frame:
  "map_layers (showLocationInfo env lat lng s) = map_layers s"
  "currentMarker (showLocationInfo env lat lng s) = currentMarker s"
  "markers_created (showLocationInfo env lat lng s) = markers_created s"
  "requests (showLocationInfo env lat lng s) = requests s"
  by (simp_all add: showLocationInfo_def getHazardInfoForLocation_def Let_def)

lemma markers_removeAll:
  "filter is_marker xs = [m] \<Longrightarrow> filter is_marker (removeAll m xs) = []"
proof -
  assume a: "filter is_marker xs = [m]"
  have "filter is_marker (removeAll m xs) = removeAll m (filter is_marker xs)"
    by (induction xs) auto
  with a show ?thesis by simp
qed

lemma no_markers_notin:
  "filter is_marker xs = [] \<Longrightarrow> Marker i lat lng \<notin> set xs"
  by (auto simp add: filter_empty_conv)

lemma onMapClick_marker:
  assumes "marker_inv s"
  shows "\<exists>s'. onMapClick env lat lng s = Inr s'
           \<and> currentMarker s' = Some (Marker (markers_created s) lat lng)
           \<and> markers_on_map s' = [Marker (markers_created s) lat lng]
           \<and> markers_created s' = Suc (markers_created s)
           \<and> marker_inv s'"
proof (cases "currentMarker s")
  case None
  with assms have "filter is_marker (map_layers s) = []"
    by (simp add: marker_inv_def markers_on_map_def)
  with None show ?thesis
    by (simp add: onMapClick_def map_addLayer_def Let_def no_markers_notin showLocationInfo_frame
        markers_on_map_def marker_inv_def)
next
  case (Some m)
  with assms have "filter is_marker (map_layers s) = [m]"
    by (simp add: marker_inv_def markers_on_map_def)
  then have e: "filter is_marker (removeAll m (map_layers s)) = []"
    by (rule markers_removeAll)
  define s1 where "s1 = s\<lparr>map_layers := removeAll m (map_layers s)\<rparr>"
  let ?new = "Marker (markers_created s) lat lng"
  have r: "map_removeLayer (Some m) s = Inr s1"
    by (simp add: map_removeLayer_def s1_def)
  have e1: "filter is_marker (map_layers s1) = []"
    using e by (simp add: s1_def)
  then have "?new \<notin> set (map_layers s1)"
    by (rule no_markers_notin)
  then have a: "map_addLayer (Some ?new) s1 = Inr (s1\<lparr>map_layers := map_layers s1 @ [?new]\<rparr>)"
    by (simp add: map_addLayer_def)
  have c: "markers_created s1 = markers_created s"
    by (simp add: s1_def)
  have "onMapClick env lat lng s =
          Inr (showLocationInfo env lat lng
                 (s1\<lparr>map_layers := map_layers s1 @ [?new], currentMarker := Some ?new,
                      markers_created := Suc (markers_created s)\<rparr>))"
    by (simp add: onMapClick_def Some r a c Let_def)
  with e1 show ?thesis
    by (simp add: showLocationInfo_frame markers_on_map_def marker_inv_def)
qed

lemma clicks_markers:
  "marker_inv s \<Longrightarrow>
   \<exists>s'. clicks env cs s = Inr s' \<and> marker_inv s'
      \<and> markers_created s' = markers_created s + length cs
      \<and> (cs \<noteq> [] \<longrightarrow>
            markers_on_map s' = [Marker (markers_created s + length cs - 1) (fst (last cs)) (snd (last cs))])"
proof (induction cs arbitrary: s)
  case Nil
  then show ?case by simp
next
  case (Cons c cs)
  obtain lat lng where c: "c = (lat, lng)" by (cases c)
  from onMapClick_marker [OF Cons.prems, of env lat lng]
  obtain s1 where s1: "onMapClick env lat lng s = Inr s1"
    "markers_on_map s1 = [Marker (markers_created s) lat lng]"
    "markers_created s1 = Suc (markers_created s)" "marker_inv s1"
    by blast
  from Cons.IH [OF s1(4)]
  obtain s' where s': "clicks env cs s1 = Inr s'" "marker_inv s'"
    "markers_created s' = markers_created s1 + length cs"
    "cs \<noteq> [] \<longrightarrow> markers_on_map s' = [Marker (markers_created s1 + length cs - 1) (fst (last cs)) (snd (last cs))]"
    by blast
  show ?case
  proof (cases "cs = []")
    case True
    with s1 s' c show ?thesis by simp
  next
    case False
    with s1 s' c show ?thesis by simp
  qed
qed

lemma marker_inv_length: "marker_inv s \<Longrightarrow> length (markers_on_map s) \<le> 1"
  by (simp add: marker_inv_def split: option.splits)

lemma DOMContentLoaded_frame:
  "map_layers (DOMContentLoaded env backend doc)
     = [TileLayer, LayerGroup FloodLayer, LayerGroup LandslideLayer, LayerGroup LiquefactionLayer]"
  "currentMarker (DOMContentLoaded env backend doc) = None"
  "markers_created (DOMContentLoaded env backend doc) = 0"
  by (simp_all add: DOMContentLoaded_def initMap_def loadHazardData_snd loadHazardData_try_frame)

lemma DOMContentLoaded_inv: "marker_inv (DOMContentLoaded env backend doc)"
  by (simp add: marker_inv_def markers_on_map_def DOMContentLoaded_frame)

text \<open>
  Claim C4: at most one selection marker exists at any time. After every series of map
  clicks on the loaded page the map holds at most one marker, and when there was a click
  it holds exactly one, at the coordinate of the last click; it is the marker
  \<^verbatim>\<open>currentMarker\<close> refers to. (A series of clicks is any series, so this holds
  after each click of a longer series.)
\<close>

theorem one_selection_marker:
  "\<exists>s'. clicks env cs (DOMContentLoaded env backend doc) = Inr s'
      \<and> length (markers_on_map s') \<le> 1
      \<and> (cs \<noteq> [] \<longrightarrow>
            markers_on_map s' = [Marker (length cs - 1) (fst (last cs)) (snd (last cs))]
            \<and> currentMarker s' = Some (Marker (length cs - 1) (fst (last cs)) (snd (last cs))))"
proof -
  from clicks_markers [OF DOMContentLoaded_inv, of env cs env backend doc]
  obtain s' where s': "clicks env cs (DOMContentLoaded env backend doc) = Inr s'" "marker_inv s'"
    "cs \<noteq> [] \<longrightarrow> markers_on_map s' = [Marker (length cs - 1) (fst (last cs)) (snd (last cs))]"
    by (auto simp add: DOMContentLoaded_frame)
  then have "cs \<noteq> [] \<longrightarrow> currentMarker s' = Some (Marker (length cs - 1) (fst (last cs)) (snd (last cs)))"
    by (auto simp add: marker_inv_def split: option.splits)
  with s' marker_inv_length [of s'] show ?thesis
    by blast
qed

theorem one_selection_marker_witness:
  "\<exists>s'. clicks sample_env [(9, 123), (10, 124)] (DOMContentLoaded sample_env backend_up sample_document) = Inr s'
      \<and> markers_on_map s' = [Marker 1 10 124]"
  using one_selection_marker [of sample_env "[(9, 123), (10, 124)]" backend_up sample_document]
  by auto

text \<open>
  Claim C8: the first map click succeeds. On the loaded page no marker has been placed
  and \<^verbatim>\<open>currentMarker\<close> is \<^verbatim>\<open>undefined\<close>, a value on which the removal would
  raise; the guard skips the removal, the click handler ends without an exception, and
  exactly one marker, at the clicked coordinate, is on the map.
\<close>

theorem first_click:
  "currentMarker (DOMContentLoaded env backend doc) = None
   \<and> markers_on_map (DOMContentLoaded env backend doc) = []
   \<and> map_removeLayer (currentMarker (DOMContentLoaded env backend doc))
        (DOMContentLoaded env backend doc) = Inl TypeError
   \<and> (\<exists>s'. onMapClick env lat lng (DOMContentLoaded env backend doc) = Inr s'
          \<and> markers_on_map s' = [Marker 0 lat lng]
          \<and> currentMarker s' = Some (Marker 0 lat lng)
          \<and> map_layers s' = map_layers (DOMContentLoaded env backend doc) @ [Marker 0 lat lng])"
proof -
  let ?s = "DOMContentLoaded env backend doc"
  have "onMapClick env lat lng ?s =
          Inr (showLocationInfo env lat lng
                 (?s\<lparr>map_layers := map_layers ?s @ [Marker 0 lat lng],
                     currentMarker := Some (Marker 0 lat lng), markers_created := Suc 0\<rparr>))"
    by (simp add: onMapClick_def map_addLayer_def Let_def DOMContentLoaded_frame)
  then show ?thesis
    by (simp add: DOMContentLoaded_frame markers_on_map_def map_removeLayer_def showLocationInfo_frame)
qed

subsection \<open>The layer toggles\<close>

lemma toggle_change_Inr:
  "toggle_change g checked s =
     Inr (s\<lparr>map_layers :=
              (if checked
               then (if LayerGroup g \<in> set (map_layers s) then map_layers s
                     else map_layers s @ [LayerGroup g])
               else removeAll (LayerGroup g) (map_layers s))\<rparr>)"
  by (simp add: toggle_change_def map_addLayer_def map_removeLayer_def)

lemma group_layers_map_layers [simp]:
  "group_layers h (s\<lparr>map_layers := ls\<rparr>) = group_layers h s"
  by (cases h) simp_all

lemma markers_removeAll_group:
  "filter is_marker (removeAll (LayerGroup g) ls) = filter is_marker ls"
  by (induction ls) auto

text \<open>
  Claim C7: a toggle changes only the visibility of its own layer. Unchecking takes the
  group off the map, so none of its shapes is shown, while the other two layers are
  shown as before and the members of every group stay what they were; checking again
  puts the group back with the same members, and neither step sends a request. The page
  changes in its list of map layers only. For a layer that failed to load, whose group
  is empty, either toggle ends without an exception and the map shows the same shapes
  as before.
\<close>

theorem toggle_visibility:
  "(\<exists>s1. toggle_change g False s = Inr s1
        \<and> s1 = s\<lparr>map_layers := removeAll (LayerGroup g) (map_layers s)\<rparr>
        \<and> \<not> on_map g s1 \<and> visible_shapes g s1 = []
        \<and> (\<forall>h. h \<noteq> g \<longrightarrow> on_map h s1 = on_map h s \<and> visible_shapes h s1 = visible_shapes h s)
        \<and> (\<forall>h. group_layers h s1 = group_layers h s)
        \<and> markers_on_map s1 = markers_on_map s
        \<and> requests s1 = requests s
        \<and> (\<exists>s2. toggle_change g True s1 = Inr s2
              \<and> s2 = s1\<lparr>map_layers := map_layers s1 @ [LayerGroup g]\<rparr>
              \<and> on_map g s2 \<and> visible_shapes g s2 = group_layers g s
              \<and> (\<forall>h. h \<noteq> g \<longrightarrow> on_map h s2 = on_map h s \<and> visible_shapes h s2 = visible_shapes h s)
              \<and> (\<forall>h. group_layers h s2 = group_layers h s)
              \<and> markers_on_map s2 = markers_on_map s
              \<and> requests s2 = requests s))
   \<and> (group_layers g s = [] \<longrightarrow>
        (\<forall>checked. \<exists>s'. toggle_change g checked s = Inr s'
            \<and> (\<forall>h. visible_shapes h s' = visible_shapes h s)
            \<and> (\<forall>h. group_layers h s' = group_layers h s)
            \<and> markers_on_map s' = markers_on_map s
            \<and> requests s' = requests s))"
proof (intro conjI impI allI)
  show "group_layers g s = [] \<Longrightarrow>
        \<exists>s'. toggle_change g checked s = Inr s'
            \<and> (\<forall>h. visible_shapes h s' = visible_shapes h s)
            \<and> (\<forall>h. group_layers h s' = group_layers h s)
            \<and> markers_on_map s' = markers_on_map s
            \<and> requests s' = requests s" for checked
    by (auto simp add: toggle_change_Inr visible_shapes_def on_map_def markers_on_map_def
        markers_removeAll_group)
next
  let ?s1 = "s\<lparr>map_layers := removeAll (LayerGroup g) (map_layers s)\<rparr>"
  have 1: "toggle_change g False s = Inr ?s1"
    by (simp add: toggle_change_Inr)
  have 2: "toggle_change g True ?s1 = Inr (?s1\<lparr>map_layers := map_layers ?s1 @ [LayerGroup g]\<rparr>)"
    by (simp add: toggle_change_Inr)
  show "\<exists>s1. toggle_change g False s = Inr s1
        \<and> s1 = s\<lparr>map_layers := removeAll (LayerGroup g) (map_layers s)\<rparr>
        \<and> \<not> on_map g s1 \<and> visible_shapes g s1 = []
        \<and> (\<forall>h. h \<noteq> g \<longrightarrow> on_map h s1 = on_map h s \<and> visible_shapes h s1 = visible_shapes h s)
        \<and> (\<forall>h. group_layers h s1 = group_layers h s)
        \<and> markers_on_map s1 = markers_on_map s
        \<and> requests s1 = requests s
        \<and> (\<exists>s2. toggle_change g True s1 = Inr s2
              \<and> s2 = s1\<lparr>map_layers := map_layers s1 @ [LayerGroup g]\<rparr>
              \<and> on_map g s2 \<and> visible_shapes g s2 = group_layers g s
              \<and> (\<forall>h. h \<noteq> g \<longrightarrow> on_map h s2 = on_map h s \<and> visible_shapes h s2 = visible_shapes h s)
              \<and> (\<forall>h. group_layers h s2 = group_layers h s)
              \<and> markers_on_map s2 = markers_on_map s
              \<and> requests s2 = requests s)"
    by (rule exI [of _ ?s1])
       (auto simp add: 1 2 visible_shapes_def on_map_def markers_on_map_def
          markers_removeAll_group)
qed

theorem toggle_visibility_witness:
  "group_layers FloodLayer (DOMContentLoaded sample_env backend_flood_500 sample_document) = []
   \<and> visible_shapes LandslideLayer (DOMContentLoaded sample_env backend_flood_500 sample_document)
       = [rendered sample_env ''landslide'' feature_HS]
   \<and> LandslideLayer \<noteq> FloodLayer
   \<and> (\<exists>s1. toggle_change FloodLayer False
               (DOMContentLoaded sample_env backend_flood_500 sample_document) = Inr s1
          \<and> visible_shapes LandslideLayer s1 = [rendered sample_env ''landslide'' feature_HS])
   \<and> (\<forall>checked. \<exists>s'. toggle_change FloodLayer checked
               (DOMContentLoaded sample_env backend_flood_500 sample_document) = Inr s'
          \<and> (\<forall>h. visible_shapes h s'
                 = visible_shapes h (DOMContentLoaded sample_env backend_flood_500 sample_document)))"
proof -
  let ?S = "DOMContentLoaded sample_env backend_flood_500 sample_document"
  have e: "group_layers FloodLayer ?S = []"
    "visible_shapes LandslideLayer ?S = [rendered sample_env ''landslide'' feature_HS]"
    by (simp_all add: DOMContentLoaded_def initMap_def loadHazardData_def loadHazardData_try_def
        load_dataset_def backend_flood_500_def sample_document_def visible_shapes_def on_map_def
        onEachFeature_def)
  have d: "LandslideLayer \<noteq> FloodLayer"
    by simp
  from toggle_visibility [of FloodLayer ?S] e d show ?thesis
    by metis
qed

subsection \<open>The upload form\<close>

lemma showUploadResult_fields:
  "result_message (showUploadResult success message s) = result_html success message"
  "upload_result_hidden (showUploadResult success message s) = False"
  "upload_progress_hidden (showUploadResult success message s) = True"
  "timers (showUploadResult success message s) = timers s"
  "requests (showUploadResult success message s) = requests s"
  "alerts (showUploadResult success message s) = alerts s"
  "console_errors (showUploadResult success message s) = console_errors s"
  by (simp_all add: showUploadResult_def Let_def)

lemma handleFileUpload_catch_fields:
  "result_message (handleFileUpload_catch e s) = result_html False ''Network error occurred''"
  "upload_result_hidden (handleFileUpload_catch e s) = False"
  "upload_progress_hidden (handleFileUpload_catch e s) = True"
  "timers (handleFileUpload_catch e s) = timers s"
  "requests (handleFileUpload_catch e s) = requests s"
  "alerts (handleFileUpload_catch e s) = alerts s"
  "console_errors (handleFileUpload_catch e s) = console_errors s @ [(''Upload error:'', e)]"
  by (simp_all add: handleFileUpload_catch_def Let_def showUploadResult_fields)





lemma handleFileUpload_sent:
  "datasetType \<noteq> [] \<Longrightarrow>
   requests (handleFileUpload env (Some shapefile) datasetType outcome s)
     = requests s @ [POST ''/api/upload-shapefile/'' shapefile datasetType]
   \<and> alerts (handleFileUpload env (Some shapefile) datasetType outcome s) = alerts s"
proof (cases outcome)
  case Rejected
  assume "datasetType \<noteq> []"
  with Rejected show ?thesis
    by (simp add: handleFileUpload_def Let_def showUploadProgress_def handleFileUpload_catch_fields)
next
  case (Response ok body)
  assume d: "datasetType \<noteq> []"
  show ?thesis
  proof (cases body)
    case None
    with Response d show ?thesis
      by (simp add: handleFileUpload_def Let_def showUploadProgress_def
          handleFileUpload_catch_fields)
  next
    case (Some result)
    with Response d show ?thesis
      by (cases ok)
         (simp_all add: handleFileUpload_def Let_def showUploadProgress_def
            showUploadResult_fields)
  qed
qed

text \<open>
  Claim C6: a submission without a file or without a dataset type is rejected with an
  alert and sends no request (the page changes in its list of alerts only); the request
  is sent only when both are present, and then without an alert.
\<close>

theorem upload_validation:
  "(file = None \<or> datasetType = [] \<longrightarrow>
      requests (handleFileUpload env file datasetType outcome s) = requests s
      \<and> (\<exists>message. handleFileUpload env file datasetType outcome s
                      = s\<lparr>alerts := alerts s @ [message]\<rparr>))
   \<and> (\<forall>shapefile. file = Some shapefile \<and> datasetType \<noteq> [] \<longrightarrow>
        requests (handleFileUpload env file datasetType outcome s)
          = requests s @ [POST ''/api/upload-shapefile/'' shapefile datasetType]
        \<and> alerts (handleFileUpload env file datasetType outcome s) = alerts s)"
proof (intro conjI impI allI)
  assume "file = None \<or> datasetType = []"
  then have e: "handleFileUpload env file datasetType outcome s
                  = s\<lparr>alerts := alerts s @ [if file = None
                                                then ''Please select a shapefile to upload''
                                                else ''Please select a dataset type'']\<rparr>"
    by (cases "file") (simp_all add: handleFileUpload_def)
  show "requests (handleFileUpload env file datasetType outcome s) = requests s"
    by (simp add: e)
  show "\<exists>message. handleFileUpload env file datasetType outcome s
                      = s\<lparr>alerts := alerts s @ [message]\<rparr>"
    by (rule exI) (rule e)
next
  fix shapefile
  assume a: "file = Some shapefile \<and> datasetType \<noteq> []"
  with handleFileUpload_sent [of datasetType env shapefile outcome s]
  show "requests (handleFileUpload env file datasetType outcome s)
          = requests s @ [POST ''/api/upload-shapefile/'' shapefile datasetType]"
    and "alerts (handleFileUpload env file datasetType outcome s) = alerts s"
    by simp_all
qed

theorem upload_validation_witness:
  "requests (handleFileUpload sample_env None ''flood'' Rejected sample_document) = []
   \<and> alerts (handleFileUpload sample_env None ''flood'' Rejected sample_document)
       = [''Please select a shapefile to upload'']
   \<and> requests (handleFileUpload sample_env (Some ''flood.zip'') ''flood'' Rejected sample_document)
       = [POST ''/api/upload-shapefile/'' ''flood.zip'' ''flood'']"
  using upload_validation [of None "''flood''" sample_env Rejected sample_document]
    upload_validation [of "Some ''flood.zip''" "''flood''" sample_env Rejected sample_document]
  by (simp add: sample_document_def handleFileUpload_def)





end
